theory Spec2Isabelle
  imports Main
begin

section \<open>Path rewriting for cwRsync (sync.py, lines 13-32)\<close>

text \<open>
  The module-level flag \<open>IS_WINDOWS\<close> is a parameter of every function that reads it.
  Strings are byte lists; the backslash is \<open>CHR 0x5C\<close> and the line feed \<open>CHR 0x0A\<close>.
\<close>

definition backslash :: char where
  "backslash = CHR 0x5C"

definition linefeed :: char where
  "linefeed = CHR 0x0A"

definition is_ascii_letter :: "char \<Rightarrow> bool" where
  "is_ascii_letter c =
     (let n = (of_char c :: nat) in (65 \<le> n \<and> n \<le> 90) \<or> (97 \<le> n \<and> n \<le> 122))"

text \<open>\<open>str.lower()\<close> on one character of the class \<open>[A-Za-z]\<close>.\<close>

definition lower_char :: "char \<Rightarrow> char" where
  "lower_char c =
     (let n = (of_char c :: nat) in if 65 \<le> n \<and> n \<le> 90 then char_of (n + 32) else c)"

text \<open>\<open>path.replace('\\', '/')\<close>\<close>

definition replace_backslash :: "string \<Rightarrow> string" where
  "replace_backslash path = map (\<lambda>c. if c = backslash then CHR ''/'' else c) path"

text \<open>
  \<open>re.match(r'^([A-Za-z]):/(.*)$', path)\<close>, returning the two groups. The dot does not
  match a line feed, and \<open>$\<close> matches at the end of the string or just before a line feed
  that ends the string; so the rest is matched when it holds no line feed, or when its only
  line feed is its last character (which is then left out of the group).
\<close>

definition match_drive :: "string \<Rightarrow> (char \<times> string) option" where
  "match_drive path =
     (case path of
        l # c # s # rest \<Rightarrow>
          if is_ascii_letter l \<and> c = CHR '':'' \<and> s = CHR ''/'' then
            (if linefeed \<notin> set rest then Some (l, rest)
             else if last rest = linefeed \<and> linefeed \<notin> set (butlast rest)
               then Some (l, butlast rest)
             else None)
          else None
      | _ \<Rightarrow> None)"

definition fix_windows_path_for_cwrsync :: "bool \<Rightarrow> string \<Rightarrow> string" where
  "fix_windows_path_for_cwrsync IS_WINDOWS path =
     (if \<not> IS_WINDOWS then path
      else
        let path1 = replace_backslash path in
        case match_drive path1 of
          Some (drive_letter, rest) \<Rightarrow> ''/cygdrive/'' @ [lower_char drive_letter] @ ''/'' @ rest
        | None \<Rightarrow> path1)"

section \<open>Integers as text\<close>

text \<open>\<open>'%s' % n\<close> and \<open>f'{n}'\<close> for a Python int: the decimal rendering, with a minus sign.\<close>

definition digit_char :: "nat \<Rightarrow> char" where
  "digit_char d = char_of (48 + d)"

fun digits10 :: "nat \<Rightarrow> string" where
  "digits10 n = (if n < 10 then [digit_char n] else digits10 (n div 10) @ [digit_char (n mod 10)])"

declare digits10.simps [simp del]

definition str_int :: "int \<Rightarrow> string" where
  "str_int i = (if i < 0 then CHR ''-'' # digits10 (nat (- i)) else digits10 (nat i))"

datatype exn = KeyError string | ValueError string | OSError string | Exception string

definition octal_digit :: "char \<Rightarrow> nat option" where
  "octal_digit c =
     (let n = (of_char c :: nat) in if 48 \<le> n \<and> n \<le> 55 then Some (n - 48) else None)"

fun octal_digits :: "string \<Rightarrow> nat \<Rightarrow> nat option" where
  "octal_digits [] acc = Some acc"
| "octal_digits (c # cs) acc =
     (case octal_digit c of None \<Rightarrow> None | Some d \<Rightarrow> octal_digits cs (8 * acc + d))"

text \<open>
  \<open>int(s, 8)\<close> on the strings that \<open>'%s' % n\<close> produces for an int \<open>n\<close>: an optional minus
  sign, then decimal digits. A digit 8 or 9 raises ValueError. (The prefix \<open>0o\<close>,
  underscores and blanks that Python also accepts do not occur in such a string.)
\<close>

definition int_base8 :: "string \<Rightarrow> exn + int" where
  "int_base8 s =
     (case s of
        [] \<Rightarrow> Inl (ValueError s)
      | c # cs \<Rightarrow>
          if c = CHR ''-'' then
            (case (if cs = [] then None else octal_digits cs 0) of
               None \<Rightarrow> Inl (ValueError s)
             | Some n \<Rightarrow> Inr (- int n))
          else
            (case octal_digits s 0 of
               None \<Rightarrow> Inl (ValueError s)
             | Some n \<Rightarrow> Inr (int n)))"

section \<open>Data model\<close>

text \<open>
  A dictionary read with \<open>d.get(key, default)\<close>: the field is \<open>None\<close> when the key is absent.
\<close>

definition dict_get :: "'a option \<Rightarrow> 'a \<Rightarrow> 'a" where
  "dict_get field dflt = (case field of Some v \<Rightarrow> v | None \<Rightarrow> dflt)"

text \<open>
  The extended specification of a record, and the \<open>sync\<close> defaults (which are read with the
  same keys, \<open>path\<close> apart). An owner or group can hold Python's \<open>None\<close>, which is also the
  built-in default group on Windows: their values are \<open>string option\<close>.
\<close>

record spec =
  get_create :: "bool option"
  get_rsync :: "string option"
  get_options :: "string list option"
  get_fmode :: "int option"
  get_dmode :: "int option"
  get_owner :: "string option option"
  get_group :: "string option option"
  get_stdout :: "bool option"
  get_stderr :: "bool option"
  get_path :: "string option"

datatype source = Bare string | Extended spec

text \<open>\<open>stdout\<close>/\<open>stderr\<close> as given to the subprocess: \<open>None\<close> (inherited) or a handle on devnull.\<close>

datatype stream = Inherit | DevNull

text \<open>The local variables of the loop body of \<open>_process_records\<close> after lines 78-116.\<close>

record effective =
  eff_create :: bool
  eff_rsync :: string
  eff_options :: "string list"
  eff_fmode :: int
  eff_dmode :: int
  eff_owner :: "string option"
  eff_group :: "string option"
  eff_stdout :: stream
  eff_stderr :: stream
  eff_paths_expression :: string

section \<open>The operating system, the host context and the log\<close>

text \<open>
  What the plugin calls outside itself is a parameter: the functions of \<open>os\<close>, \<open>os.path\<close>,
  \<open>glob\<close>, \<open>pwd\<close>, \<open>grp\<close> and \<open>subprocess\<close>, and the base directory of the dotbot context.
  The file system is a state \<open>'w\<close>: reads take it, calls that change it return the new one.
  A call that raises returns its exception (only subclasses of \<open>Exception\<close> are modelled).
\<close>

record 'w os =
  IS_WINDOWS :: bool
  base_directory :: string
  expanduser :: "string \<Rightarrow> string"
  expandvars :: "string \<Rightarrow> string"
  path_join :: "string \<Rightarrow> string \<Rightarrow> string"
  abspath :: "string \<Rightarrow> string"
  getpwuid_name :: "exn + string"
  getgrgid_name :: "exn + string"
  getlogin :: "exn + string"
  getpwnam :: "string \<Rightarrow> int option"
  getgrnam :: "string \<Rightarrow> int option"
  glob :: "'w \<Rightarrow> string \<Rightarrow> string list"
  isdir :: "'w \<Rightarrow> string \<Rightarrow> bool"
  path_exists :: "'w \<Rightarrow> string \<Rightarrow> bool"
  mkdir :: "string \<Rightarrow> int \<Rightarrow> 'w \<Rightarrow> exn option \<times> 'w"
  chmod :: "string \<Rightarrow> int \<Rightarrow> 'w \<Rightarrow> exn option \<times> 'w"
  chown :: "string \<Rightarrow> int \<Rightarrow> int \<Rightarrow> 'w \<Rightarrow> exn option \<times> 'w"
  subprocess_run :: "string list \<Rightarrow> stream \<Rightarrow> stream \<Rightarrow> string \<Rightarrow> 'w \<Rightarrow> (exn + int) \<times> 'w"

datatype level = Lowinfo | Info | Warning | Error

text \<open>The log lines of the plugin, by their format string and arguments.\<close>

datatype message =
    Failed_to_chmod string int exn
  | Failed_to_chown string int int exn
  | Synchronizing_expression string string
  | All_synchronizations_done
  | Some_synchronizations_failed
  | Failed_to_create_directory string exn
  | Creating_directory string
  | Failed_to_sync_exit_code string string int
  | Synchronized string string
  | Failed_to_sync_exception string string exn

text \<open>
  Everything the plugin does to the outside, in order: its log lines and its calls of
  \<open>os.mkdir\<close>, \<open>os.chmod\<close>, \<open>os.chown\<close> and \<open>subprocess.run\<close> (argument vector, stdout, stderr, cwd).
\<close>

datatype event =
    Log level message
  | Call_mkdir string int
  | Call_chmod string int
  | Call_chown string int int
  | Call_run "string list" stream stream string

record 'w state =
  world :: 'w
  trace :: "event list"

definition emit :: "event list \<Rightarrow> 'w state \<Rightarrow> 'w state" where
  "emit evs st = st\<lparr>trace := trace st @ evs\<rparr>"

section \<open>Sync.expand\_path (lines 49-53)\<close>

definition expand_path :: "'w os \<Rightarrow> 'w \<Rightarrow> string \<Rightarrow> bool \<Rightarrow> string list" where
  "expand_path ops w path globs =
     (let path1 = expanduser ops path;
          path2 = expandvars ops path1
      in if globs then glob ops w path2 else [path2])"

section \<open>Sync.\_chmodown (lines 55-68)\<close>

definition chmodown :: "'w os \<Rightarrow> string \<Rightarrow> int \<Rightarrow> int \<Rightarrow> int \<Rightarrow> 'w state \<Rightarrow> 'w state" where
  "chmodown ops path1 mode uid gid st =
     (let (r1, w1) = chmod ops path1 mode (world st);
          st1 = emit (Call_chmod path1 mode #
                      (case r1 of None \<Rightarrow> []
                       | Some e \<Rightarrow> [Log Warning (Failed_to_chmod path1 mode e)]))
                     (st\<lparr>world := w1\<rparr>)
      in if \<not> IS_WINDOWS ops then
           (let (r2, w2) = chown ops path1 uid gid (world st1)
            in emit (Call_chown path1 uid gid #
                     (case r2 of None \<Rightarrow> []
                      | Some e \<Rightarrow> [Log Warning (Failed_to_chown path1 uid gid e)]))
                    (st1\<lparr>world := w2\<rparr>))
         else st1)"

section \<open>Sync.\_create (lines 154-166)\<close>

text \<open>
  \<open>_chmodown\<close> catches what \<open>os.chmod\<close> and \<open>os.chown\<close> raise, so inside the \<open>try\<close> of
  \<open>_create\<close> only \<open>os.mkdir\<close> can raise.
\<close>

definition create :: "'w os \<Rightarrow> string \<Rightarrow> int \<Rightarrow> int \<Rightarrow> int \<Rightarrow> 'w state \<Rightarrow> bool \<times> 'w state" where
  "create ops path1 dmode uid gid st =
     (let parent = abspath ops (path_join ops path1 ''..'')
      in if \<not> path_exists ops (world st) parent then
           (let (r, w1) = mkdir ops parent dmode (world st);
                st1 = emit [Call_mkdir parent dmode] (st\<lparr>world := w1\<rparr>)
            in case r of
                 Some e \<Rightarrow> (False, emit [Log Warning (Failed_to_create_directory parent e)] st1)
               | None \<Rightarrow>
                   (True, emit [Log Lowinfo (Creating_directory parent)]
                            (chmodown ops parent dmode uid gid st1)))
         else (True, st))"

section \<open>Sync.\_sync (lines 168-229)\<close>

text \<open>Truth value of an owner or group in \<open>if owner\<close> and \<open>owner and group\<close>.\<close>

definition truthy :: "string option \<Rightarrow> bool" where
  "truthy v = (case v of None \<Rightarrow> False | Some s \<Rightarrow> s \<noteq> [])"

text \<open>An owner or group inside an f-string.\<close>

definition fmt :: "string option \<Rightarrow> string" where
  "fmt v = (case v of None \<Rightarrow> ''None'' | Some s \<Rightarrow> s)"

text \<open>\<open>s.endswith('/')\<close>\<close>

definition endswith_slash :: "string \<Rightarrow> bool" where
  "endswith_slash s = (s \<noteq> [] \<and> last s = CHR ''/'')"

text \<open>
  Lines 186-196: the list \<open>cmd\<close>, after \<open>[c for c in cmd if c]\<close> has removed its empty
  strings. (The variable \<open>group\<close> is written \<open>grp\<close>.)
\<close>

definition sync_cmd :: "int \<Rightarrow> int \<Rightarrow> string option \<Rightarrow> string option \<Rightarrow> string \<Rightarrow> string list" where
  "sync_cmd dmode fmode owner grp rsync =
     filter (\<lambda>c. c \<noteq> [])
       [rsync, ''--update'', ''--recursive'', ''--owner'', ''--group'',
        (if truthy owner \<and> truthy grp then ''--chown='' @ fmt owner @ '':'' @ fmt grp else []),
        ''--chmod=D'' @ str_int dmode @ '',F'' @ str_int fmode]"

text \<open>Lines 177, 181-182 and 198-203: \<open>source_abs\<close> as it stands when \<open>full_cmd\<close> is built.\<close>

definition sync_source_abs :: "'w os \<Rightarrow> 'w \<Rightarrow> string \<Rightarrow> string" where
  "sync_source_abs ops w source =
     (let source_abs = path_join ops (base_directory ops) source;
          source_abs1 = (if IS_WINDOWS ops
                         then fix_windows_path_for_cwrsync (IS_WINDOWS ops) source_abs
                         else source_abs);
          original_source_full = path_join ops (base_directory ops) source
      in if isdir ops w original_source_full then
           (if \<not> endswith_slash source_abs1 then source_abs1 @ ''/'' else source_abs1)
         else source_abs1)"

text \<open>Lines 178 and 181-183: \<open>dest_abs\<close>.\<close>

definition sync_dest_abs :: "'w os \<Rightarrow> string \<Rightarrow> string" where
  "sync_dest_abs ops destination =
     (let dest_abs = expanduser ops destination
      in if IS_WINDOWS ops then fix_windows_path_for_cwrsync (IS_WINDOWS ops) dest_abs
         else dest_abs)"

text \<open>Line 205: \<open>full_cmd = cmd + options + [source_abs, dest_abs]\<close>.\<close>

definition sync_full_cmd ::
  "'w os \<Rightarrow> 'w \<Rightarrow> string \<Rightarrow> string \<Rightarrow> int \<Rightarrow> int \<Rightarrow> string option \<Rightarrow> string option \<Rightarrow> string \<Rightarrow>
   string list \<Rightarrow> string list" where
  "sync_full_cmd ops w source destination dmode fmode owner grp rsync options =
     sync_cmd dmode fmode owner grp rsync @ options @
       [sync_source_abs ops w source, sync_dest_abs ops destination]"

text \<open>
  The whole method. Everything before the \<open>try\<close> is total on these types; inside it,
  \<open>subprocess.run\<close> returns an exit code or raises, and the \<open>except\<close> clause catches what it raises.
\<close>

definition sync ::
  "'w os \<Rightarrow> string \<Rightarrow> string \<Rightarrow> int \<Rightarrow> int \<Rightarrow> string option \<Rightarrow> string option \<Rightarrow> string \<Rightarrow>
   string list \<Rightarrow> stream \<Rightarrow> stream \<Rightarrow> 'w state \<Rightarrow> bool \<times> 'w state" where
  "sync ops source destination dmode fmode owner grp rsync options stdout stderr st =
     (let source_abs = sync_source_abs ops (world st) source;
          dest_abs = sync_dest_abs ops destination;
          full_cmd = sync_full_cmd ops (world st) source destination dmode fmode owner grp
                       rsync options;
          (ret, w1) = subprocess_run ops full_cmd stdout stderr (base_directory ops) (world st);
          st1 = emit [Call_run full_cmd stdout stderr (base_directory ops)] (st\<lparr>world := w1\<rparr>)
      in case ret of
           Inr returncode \<Rightarrow>
             if returncode \<noteq> 0 then
               (False, emit [Log Warning (Failed_to_sync_exit_code source_abs dest_abs returncode)] st1)
             else
               (True, emit [Log Lowinfo (Synchronized source_abs dest_abs)] st1)
         | Inl e \<Rightarrow>
             (False, emit [Log Warning (Failed_to_sync_exception source_abs dest_abs e)] st1))"

section \<open>Sync.\_process\_records (lines 70-152)\<close>

text \<open>Lines 85-91: the built-in default owner and group.\<close>

definition default_owner_group :: "'w os \<Rightarrow> exn + string option \<times> string option" where
  "default_owner_group ops =
     (if \<not> IS_WINDOWS ops then
        (case getpwuid_name ops of
           Inl e \<Rightarrow> Inl e
         | Inr default_owner \<Rightarrow>
             (case getgrgid_name ops of
                Inl e \<Rightarrow> Inl e
              | Inr default_group \<Rightarrow> Inr (Some default_owner, Some default_group)))
      else
        (case getlogin ops of
           Inl e \<Rightarrow> Inl e
         | Inr default_owner \<Rightarrow> Inr (Some default_owner, None)))"

text \<open>\<open>open(os.devnull, 'w')\<close> when the looked-up value \<open>is False\<close>, else \<open>None\<close>.\<close>

definition stream_of :: "bool \<Rightarrow> stream" where
  "stream_of shown = (if shown = False then DevNull else Inherit)"

text \<open>Lines 78-116: the defaults, then the overrides of an extended record.\<close>

definition effective_config :: "'w os \<Rightarrow> spec \<Rightarrow> source \<Rightarrow> exn + effective" where
  "effective_config ops defaults source =
     (let rsync = dict_get (get_rsync defaults) ''rsync'';
          options = dict_get (get_options defaults) [''--delete'', ''--safe-links''];
          create1 = dict_get (get_create defaults) False;
          fmode = dict_get (get_fmode defaults) 644;
          dmode = dict_get (get_dmode defaults) 755
      in case default_owner_group ops of
           Inl e \<Rightarrow> Inl e
         | Inr (default_owner, default_group) \<Rightarrow>
             (let owner = dict_get (get_owner defaults) default_owner;
                  grp = dict_get (get_group defaults) default_group
              in case source of
                   Extended src \<Rightarrow>
                     (case get_path src of
                        None \<Rightarrow> Inl (KeyError ''path'')
                      | Some paths_expression \<Rightarrow>
                          Inr \<lparr> eff_create = dict_get (get_create src) create1,
                                eff_rsync = dict_get (get_rsync src) rsync,
                                eff_options = dict_get (get_options src) options,
                                eff_fmode = dict_get (get_fmode src) fmode,
                                eff_dmode = dict_get (get_dmode src) dmode,
                                eff_owner = dict_get (get_owner src) owner,
                                eff_group = dict_get (get_group src) grp,
                                eff_stdout = stream_of (dict_get (get_stdout src)
                                                          (dict_get (get_stdout defaults) True)),
                                eff_stderr = stream_of (dict_get (get_stderr src)
                                                          (dict_get (get_stderr defaults) True)),
                                eff_paths_expression = paths_expression \<rparr>)
                 | Bare paths_expression \<Rightarrow>
                     Inr \<lparr> eff_create = create1,
                           eff_rsync = rsync,
                           eff_options = options,
                           eff_fmode = fmode,
                           eff_dmode = dmode,
                           eff_owner = owner,
                           eff_group = grp,
                           eff_stdout = Inherit,
                           eff_stderr = Inherit,
                           eff_paths_expression = paths_expression \<rparr>))"

text \<open>Lines 118-124: \<open>pwd.getpwnam\<close> and \<open>grp.getgrnam\<close> raise KeyError on an unknown name.\<close>

definition resolve_ids :: "'w os \<Rightarrow> string option \<Rightarrow> string option \<Rightarrow> exn + int \<times> int" where
  "resolve_ids ops owner grp =
     (if \<not> IS_WINDOWS ops then
        (case (if truthy owner
               then (case getpwnam ops (fmt owner) of
                       None \<Rightarrow> Inl (KeyError (fmt owner)) | Some u \<Rightarrow> Inr u)
               else Inr (- 1)) of
           Inl e \<Rightarrow> Inl e
         | Inr uid \<Rightarrow>
             (case (if truthy grp
                    then (case getgrnam ops (fmt grp) of
                            None \<Rightarrow> Inl (KeyError (fmt grp)) | Some g \<Rightarrow> Inr g)
                    else Inr (- 1)) of
                Inl e \<Rightarrow> Inl e
              | Inr gid \<Rightarrow> Inr (uid, gid)))
      else Inr (- 1, - 1))"

text \<open>Lines 136-140: the loop over the matched paths, \<open>success &= self._sync(...)\<close>.\<close>

fun sync_paths ::
  "'w os \<Rightarrow> string list \<Rightarrow> string \<Rightarrow> effective \<Rightarrow> bool \<times> 'w state \<Rightarrow> bool \<times> 'w state" where
  "sync_paths ops [] destination cfg (success, st) = (success, st)"
| "sync_paths ops (path_item # paths) destination cfg (success, st) =
     (let (ok, st1) = sync ops path_item destination (eff_dmode cfg) (eff_fmode cfg)
                        (eff_owner cfg) (eff_group cfg) (eff_rsync cfg) (eff_options cfg)
                        (eff_stdout cfg) (eff_stderr cfg) st
      in sync_paths ops paths destination cfg (success \<and> ok, st1))"

text \<open>Lines 126-128: \<open>if create: success &= self._create(destination, int('%s' % dmode, 8), uid, gid)\<close>.\<close>

definition create_if_needed ::
  "'w os \<Rightarrow> string \<Rightarrow> effective \<Rightarrow> int \<Rightarrow> int \<Rightarrow> bool \<times> 'w state \<Rightarrow> (exn + bool) \<times> 'w state" where
  "create_if_needed ops destination cfg uid gid acc =
     (case acc of (success, st) \<Rightarrow>
        if eff_create cfg then
          (case int_base8 (str_int (eff_dmode cfg)) of
             Inl e \<Rightarrow> (Inl e, st)
           | Inr mode \<Rightarrow>
               (let (ok, st1) = create ops destination mode uid gid st
                in (Inr (success \<and> ok), st1)))
        else (Inr success, st))"

text \<open>Lines 131-134: the log line when the expression matches more than one path.\<close>

definition announce :: "string list \<Rightarrow> string \<Rightarrow> string \<Rightarrow> 'w state \<Rightarrow> 'w state" where
  "announce paths paths_expression destination st =
     (if length paths > 1
      then emit [Log Lowinfo (Synchronizing_expression paths_expression destination)] st
      else st)"

text \<open>Lines 78-146: the loop body once \<open>destination\<close> is bound. An exception leaves the method.\<close>

definition process_destination ::
  "'w os \<Rightarrow> spec \<Rightarrow> string \<Rightarrow> source \<Rightarrow> bool \<times> 'w state \<Rightarrow> (exn + bool) \<times> 'w state" where
  "process_destination ops defaults destination source acc =
     (case acc of (success, st) \<Rightarrow>
        (case effective_config ops defaults source of
           Inl e \<Rightarrow> (Inl e, st)
         | Inr cfg \<Rightarrow>
             (case resolve_ids ops (eff_owner cfg) (eff_group cfg) of
                Inl e \<Rightarrow> (Inl e, st)
              | Inr (uid, gid) \<Rightarrow>
                  (case create_if_needed ops destination cfg uid gid (success, st) of
                     (Inl e, st1) \<Rightarrow> (Inl e, st1)
                   | (Inr success1, st1) \<Rightarrow>
                       (let paths = expand_path ops (world st1) (eff_paths_expression cfg) True;
                            st2 = announce paths (eff_paths_expression cfg) destination st1;
                            (success2, st3) = sync_paths ops paths destination cfg (success1, st2)
                        in (Inr success2, st3))))))"

text \<open>
  One pass of the loop (lines 74-146). The tuple pattern \<open>(destination,) = ...\<close> of line 76
  raises ValueError unless the list has exactly one element.
\<close>

definition process_record ::
  "'w os \<Rightarrow> spec \<Rightarrow> string \<times> source \<Rightarrow> bool \<times> 'w state \<Rightarrow> (exn + bool) \<times> 'w state" where
  "process_record ops defaults item acc =
     (case item of (destination0, source) \<Rightarrow>
        (case expand_path ops (world (snd acc)) destination0 False of
           [destination] \<Rightarrow> process_destination ops defaults destination source acc
         | _ \<Rightarrow> (Inl (ValueError ''unpack''), snd acc)))"

text \<open>The loop over \<open>records.items()\<close>, in the order of the dictionary.\<close>

fun process_loop ::
  "'w os \<Rightarrow> spec \<Rightarrow> (string \<times> source) list \<Rightarrow> bool \<times> 'w state \<Rightarrow> (exn + bool) \<times> 'w state" where
  "process_loop ops defaults [] (success, st) = (Inr success, st)"
| "process_loop ops defaults (item # items) (success, st) =
     (case process_record ops defaults item (success, st) of
        (Inl e, st1) \<Rightarrow> (Inl e, st1)
      | (Inr success1, st1) \<Rightarrow> process_loop ops defaults items (success1, st1))"

definition process_records ::
  "'w os \<Rightarrow> spec \<Rightarrow> (string \<times> source) list \<Rightarrow> 'w state \<Rightarrow> (exn + bool) \<times> 'w state" where
  "process_records ops defaults recs st =
     (case process_loop ops defaults recs (True, st) of
        (Inl e, st1) \<Rightarrow> (Inl e, st1)
      | (Inr success, st1) \<Rightarrow>
          (Inr success,
           emit [if success then Log Info All_synchronizations_done
                 else Log Error Some_synchronizations_failed] st1))"

section \<open>Reading a run\<close>

text \<open>What was done between two states: the events added to the trace.\<close>

definition emitted :: "'w state \<Rightarrow> 'w state \<Rightarrow> event list" where
  "emitted st st1 = drop (length (trace st)) (trace st1)"

text \<open>
  The boolean that a call of \<open>_sync\<close> or \<open>_create\<close> returned, read off the log line with which
  the call ends (a call of \<open>_create\<close> that finds the parent directory logs nothing and returns
  true).
\<close>

fun outcome :: "event \<Rightarrow> bool option" where
  "outcome (Log lv (Synchronized s d)) = Some True"
| "outcome (Log lv (Failed_to_sync_exit_code s d c)) = Some False"
| "outcome (Log lv (Failed_to_sync_exception s d e)) = Some False"
| "outcome (Log lv (Creating_directory p)) = Some True"
| "outcome (Log lv (Failed_to_create_directory p e)) = Some False"
| "outcome ev = None"

definition outcomes :: "event list \<Rightarrow> bool list" where
  "outcomes evs = List.map_filter outcome evs"

fun is_run :: "event \<Rightarrow> bool" where
  "is_run (Call_run argv out err cwd) = True"
| "is_run ev = False"

text \<open>The reading in base 8 of the decimal digits of a number: 755 is read as 0o755.\<close>

fun octal_reading :: "nat \<Rightarrow> nat" where
  "octal_reading n = (if n < 10 then n else 8 * octal_reading (n div 10) + n mod 10)"

declare octal_reading.simps [simp del]

section \<open>A POSIX machine to run the plugin on\<close>

text \<open>\<open>posixpath.join\<close> of two components.\<close>

definition posix_join :: "string \<Rightarrow> string \<Rightarrow> string" where
  "posix_join a b =
     (if b \<noteq> [] \<and> hd b = CHR ''/'' then b
      else if a = [] \<or> last a = CHR ''/'' then a @ b
      else a @ ''/'' @ b)"

text \<open>
  A small machine: the state is the list of directories. The files \<open>/src/a.txt\<close>,
  \<open>/src/b.txt\<close>, \<open>/dst/a\<close> and \<open>/dst/b\<close> exist; rsync fails with exit code 23 on
  \<open>/src/b.txt\<close>; no program other than \<open>rsync\<close> is installed; \<open>/ro\<close> is read-only; the user is
  alice (uid 1000, group staff), who may not give files away to root.
\<close>

definition demo_files :: "string list" where
  "demo_files = [''/src/a.txt'', ''/src/b.txt'', ''/dst/a'', ''/dst/b'']"

definition demo_glob :: "string list \<Rightarrow> string \<Rightarrow> string list" where
  "demo_glob w pat =
     (if pat = ''/src/*.txt'' then [''/src/a.txt'', ''/src/b.txt'']
      else if pat = ''/dst/*'' then [''/dst/a'', ''/dst/b'']
      else if pat \<in> set demo_files \<or> pat \<in> set w then [pat]
      else [])"

definition demo_abspath :: "string \<Rightarrow> string" where
  "demo_abspath p =
     (if p = ''/home/alice/.config/app/..'' then ''/home/alice/.config''
      else if p = ''/ro/sub/app/..'' then ''/ro/sub''
      else if p = ''/dst/..'' then ''/''
      else p)"

definition demo_run :: "string list \<Rightarrow> stream \<Rightarrow> stream \<Rightarrow> string \<Rightarrow> string list \<Rightarrow> (exn + int) \<times> string list" where
  "demo_run argv out err cwd w =
     (case argv of
        [] \<Rightarrow> (Inl (Exception ''empty argv''), w)
      | tool # args \<Rightarrow>
          if tool = ''rsync'' then (Inr (if ''/src/b.txt'' \<in> set args then 23 else 0), w)
          else (Inl (OSError ''No such file or directory''), w))"

definition demo_os :: "string list os" where
  "demo_os =
     \<lparr> IS_WINDOWS = False,
       base_directory = ''/base'',
       expanduser = (\<lambda>p. p),
       expandvars = (\<lambda>p. p),
       path_join = posix_join,
       abspath = demo_abspath,
       getpwuid_name = Inr ''alice'',
       getgrgid_name = Inr ''staff'',
       getlogin = Inr ''alice'',
       getpwnam = [''alice'' \<mapsto> 1000, ''root'' \<mapsto> 0],
       getgrnam = [''staff'' \<mapsto> 50, ''root'' \<mapsto> 0],
       glob = demo_glob,
       isdir = (\<lambda>w p. p \<in> set w),
       path_exists = (\<lambda>w p. p \<in> set w \<or> p \<in> set demo_files),
       mkdir = (\<lambda>p m w. if p \<in> set w then (Some (OSError ''File exists''), w)
                         else if take 4 p = ''/ro/'' then (Some (OSError ''Read-only file system''), w)
                         else (None, w @ [p])),
       chmod = (\<lambda>p m w. (if p \<in> set w then None else Some (OSError ''No such file or directory''), w)),
       chown = (\<lambda>p u g w. (if u = 0 then Some (OSError ''Operation not permitted'') else None, w)),
       subprocess_run = demo_run \<rparr>"

definition demo_state :: "string list state" where
  "demo_state = \<lparr> world = [''/'', ''/base'', ''/src'', ''/src/dir'', ''/dst'', ''/ro''], trace = [] \<rparr>"

text \<open>No \<open>sync\<close> defaults, and an extended record that sets nothing.\<close>

definition no_defaults :: spec where
  "no_defaults =
     \<lparr> get_create = None, get_rsync = None, get_options = None, get_fmode = None,
       get_dmode = None, get_owner = None, get_group = None, get_stdout = None,
       get_stderr = None, get_path = None \<rparr>"


section \<open>Lemmas on the trace\<close>


lemma trace_emit [simp]: "trace (emit evs st) = trace st @ evs"
  by (simp add: emit_def)

lemma world_emit [simp]: "world (emit evs st) = world st"
  by (simp add: emit_def)

lemma emitted_append [simp]: "trace st1 = trace st @ evs \<Longrightarrow> emitted st st1 = evs"
  by (simp add: emitted_def)

lemma emitted_self [simp]: "emitted st st = []"
  by (simp add: emitted_def)

lemma outcomes_append [simp]: "outcomes (xs @ ys) = outcomes xs @ outcomes ys"
  by (simp add: outcomes_def List.map_filter_def)

lemma outcomes_Nil [simp]: "outcomes [] = []"
  by (simp add: outcomes_def List.map_filter_def)

lemma outcomes_Cons [simp]:
  "outcomes (ev # evs) = (case outcome ev of None \<Rightarrow> outcomes evs | Some b \<Rightarrow> b # outcomes evs)"
  by (simp add: outcomes_def List.map_filter_def split: option.splits)


lemma chmodown_trace:
  "\<exists>evs. trace (chmodown ops p m u g st) = trace st @ evs \<and> outcomes evs = []
     \<and> Call_chmod p m \<in> set evs
     \<and> (\<not> IS_WINDOWS ops \<longrightarrow> Call_chown p u g \<in> set evs)"
  by (auto simp: chmodown_def Let_def split: prod.splits option.splits)











subsection \<open>The success flag only accumulates\<close>






subsection \<open>Decimal digits read in base 8\<close>

lemma octal_digits_snoc:
  "octal_digits (cs @ [c]) acc =
     (case octal_digits cs acc of None \<Rightarrow> None
      | Some a \<Rightarrow> (case octal_digit c of None \<Rightarrow> None | Some d \<Rightarrow> Some (8 * a + d)))"
  by (induction cs arbitrary: acc) (auto split: option.splits)

lemma octal_char_digit: "c \<in> set ''01234567'' \<Longrightarrow> octal_digit c \<noteq> None"
  by (auto simp: octal_digit_def)

lemma octal_digit_digit_char:
  "k < 10 \<Longrightarrow> octal_digit (digit_char k) = (if k < 8 then Some k else None)"
  by (auto simp: octal_digit_def digit_char_def)

lemma digits10_octal:
  "\<forall>c\<in>set (digits10 n). c \<in> set ''01234567'' \<Longrightarrow>
   octal_digits (digits10 n) 0 = Some (octal_reading n)"
proof (induction n rule: digits10.induct)
  case (1 n)
  show ?case
  proof (cases "n < 10")
    case True
    have "digits10 n = [digit_char n]" using True by (simp add: digits10.simps)
    moreover have "octal_digit (digit_char n) \<noteq> None"
      using 1(2) calculation octal_char_digit by simp
    ultimately show ?thesis using True octal_digit_digit_char[of n]
      by (simp add: octal_reading.simps split: if_splits)
  next
    case False
    have d: "digits10 n = digits10 (n div 10) @ [digit_char (n mod 10)]"
      using False by (subst digits10.simps) simp
    have a: "\<forall>c\<in>set (digits10 (n div 10)). c \<in> set ''01234567''"
      using 1(2) d by simp
    have b: "octal_digit (digit_char (n mod 10)) \<noteq> None"
      using 1(2) d octal_char_digit by simp
    have c: "n mod 10 < 8"
      using b octal_digit_digit_char[of "n mod 10"] by (simp split: if_splits)
    have ih: "octal_digits (digits10 (n div 10)) 0 = Some (octal_reading (n div 10))"
      using 1(1)[OF False a] .
    show ?thesis using False c ih octal_digit_digit_char[of "n mod 10"]
      by (simp add: d octal_digits_snoc octal_reading.simps[of n])
  qed
qed

lemma digits10_nonempty: "digits10 n \<noteq> []"
  by (subst digits10.simps) simp

lemma int_base8_str_int:
  assumes "\<forall>c\<in>set (str_int d). c \<in> set ''01234567''"
  shows "0 \<le> d \<and> int_base8 (str_int d) = Inr (int (octal_reading (nat d)))"
proof -
  have nn: "0 \<le> d" using assms by (auto simp: str_int_def split: if_splits)
  then have s: "str_int d = digits10 (nat d)" by (simp add: str_int_def)
  have "octal_digits (digits10 (nat d)) 0 = Some (octal_reading (nat d))"
    using assms s digits10_octal by simp
  moreover obtain c cs where "digits10 (nat d) = c # cs"
    using digits10_nonempty[of "nat d"] by (cases "digits10 (nat d)") auto
  moreover have "c \<noteq> CHR ''-''" using assms s calculation by auto
  ultimately show ?thesis using nn s by (simp add: int_base8_def)
qed

section \<open>Claims\<close>

subsection \<open>C4: the path handed to cwRsync\<close>




subsection \<open>C9: decimal-looking modes are read in base 8\<close>

text \<open>
  Claim C9. If the decimal rendering of \<open>dmode\<close> holds only the digits 0 to 7, then
  \<open>int('%s' % dmode, 8)\<close> is the number whose octal digits are the decimal digits of \<open>dmode\<close>
  (755 gives 0o755 = 493), that number is the mode \<open>_create\<close> is called with, and it is the
  mode of the \<open>os.mkdir\<close> call made when the parent directory is missing.
\<close>

theorem dmode_read_as_octal:
  assumes "\<forall>c\<in>set (str_int dmode). c \<in> set ''01234567''"
      and "eff_create cfg" and "eff_dmode cfg = dmode"
  shows "int_base8 (str_int dmode) = Inr (int (octal_reading (nat dmode))) \<and>
         create_if_needed ops destination cfg uid gid (success, st) =
           (let (ok, st1) = create ops destination (int (octal_reading (nat dmode))) uid gid st
            in (Inr (success \<and> ok), st1)) \<and>
         (\<not> path_exists ops (world st) (abspath ops (path_join ops destination ''..'')) \<longrightarrow>
            take 1 (emitted st (snd (create ops destination (int (octal_reading (nat dmode))) uid gid st)))
              = [Call_mkdir (abspath ops (path_join ops destination ''..''))
                   (int (octal_reading (nat dmode)))])"
proof -
  have a: "int_base8 (str_int dmode) = Inr (int (octal_reading (nat dmode)))"
    using int_base8_str_int[OF assms(1)] by simp
  have b: "create_if_needed ops destination cfg uid gid (success, st) =
           (let (ok, st1) = create ops destination (int (octal_reading (nat dmode))) uid gid st
            in (Inr (success \<and> ok), st1))"
    using a assms(2,3) by (simp add: create_if_needed_def)
  have c: "take 1 (emitted st (snd (create ops destination m uid gid st)))
              = [Call_mkdir (abspath ops (path_join ops destination ''..'')) m]"
    if "\<not> path_exists ops (world st) (abspath ops (path_join ops destination ''..''))" for m
  proof -
    define parent where "parent = abspath ops (path_join ops destination ''..'')"
    obtain r w1 where mk: "mkdir ops parent m (world st) = (r, w1)"
      by (cases "mkdir ops parent m (world st)")
    define st2 where "st2 = emit [Call_mkdir parent m] (st\<lparr>world := w1\<rparr>)"
    obtain evs where ch: "trace (chmodown ops parent m uid gid st2) = trace st2 @ evs"
      using chmodown_trace[of ops parent m uid gid st2] by blast
    have "\<exists>evs. trace (snd (create ops destination m uid gid st)) = trace st @ Call_mkdir parent m # evs"
      using that mk ch
      by (cases r) (auto simp: create_def Let_def parent_def st2_def)
    then obtain evs2 where "trace (snd (create ops destination m uid gid st)) = trace st @ (Call_mkdir parent m # evs2)"
      by auto
    then have "emitted st (snd (create ops destination m uid gid st)) = Call_mkdir parent m # evs2"
      by (rule emitted_append)
    then show ?thesis by (simp add: parent_def)
  qed
  show ?thesis using a b c by blast
qed

theorem dmode_read_as_octal_witness:
  "str_int 755 = ''755'' \<and>
   int_base8 (str_int 755) = Inr 493 \<and>
   \<not> path_exists demo_os (world demo_state)
       (abspath demo_os (path_join demo_os ''/home/alice/.config/app'' ''..'')) \<and>
   take 1 (emitted demo_state (snd (create demo_os ''/home/alice/.config/app'' 493 1000 50 demo_state)))
     = [Call_mkdir ''/home/alice/.config'' 493]"
proof -
  define cfg where "cfg = \<lparr> eff_create = True, eff_rsync = ''rsync'', eff_options = [],
    eff_fmode = 644, eff_dmode = 755, eff_owner = None, eff_group = None,
    eff_stdout = Inherit, eff_stderr = Inherit, eff_paths_expression = ''/src/dir'' \<rparr>"
  have h0: "str_int 755 = ''755''" by code_simp
  have h1: "\<forall>c\<in>set (str_int 755). c \<in> set ''01234567''" by (simp add: h0)
  have h2: "eff_create cfg" and h3: "eff_dmode cfg = 755" by (simp_all add: cfg_def)
  have v: "int (octal_reading (nat 755)) = 493" by code_simp
  have p: "abspath demo_os (path_join demo_os ''/home/alice/.config/app'' ''..'')
             = ''/home/alice/.config''" by code_simp
  have e: "\<not> path_exists demo_os (world demo_state) ''/home/alice/.config''" by code_simp
  show ?thesis
    using dmode_read_as_octal[OF h1 h2 h3, of demo_os "''/home/alice/.config/app''" 1000 50 True
        demo_state] h0 v p e
    by simp
qed

lemma sync_emitted:
  "sync ops source destination dmode fmode owner grp rsync options stdout stderr st = (ok, st1) \<Longrightarrow>
   ok = (fst (subprocess_run ops
               (sync_full_cmd ops (world st) source destination dmode fmode owner grp rsync options)
               stdout stderr (base_directory ops) (world st)) = Inr 0) \<and>
   world st1 = snd (subprocess_run ops
               (sync_full_cmd ops (world st) source destination dmode fmode owner grp rsync options)
               stdout stderr (base_directory ops) (world st)) \<and>
   trace st1 = trace st @
     [Call_run (sync_full_cmd ops (world st) source destination dmode fmode owner grp rsync options)
        stdout stderr (base_directory ops),
      (case fst (subprocess_run ops
               (sync_full_cmd ops (world st) source destination dmode fmode owner grp rsync options)
               stdout stderr (base_directory ops) (world st)) of
         Inr returncode \<Rightarrow>
           if returncode \<noteq> 0
           then Log Warning (Failed_to_sync_exit_code (sync_source_abs ops (world st) source)
                               (sync_dest_abs ops destination) returncode)
           else Log Lowinfo (Synchronized (sync_source_abs ops (world st) source)
                               (sync_dest_abs ops destination))
       | Inl e \<Rightarrow> Log Warning (Failed_to_sync_exception (sync_source_abs ops (world st) source)
                               (sync_dest_abs ops destination) e))]"
  by (auto simp: sync_def Let_def split: prod.splits sum.splits if_splits)

subsection \<open>C1: the argument vector and the working directory\<close>

text \<open>
  Claim C1, as amended. The first thing \<open>_sync\<close> does to the outside is one call of
  \<open>subprocess.run\<close>, with working directory the base directory and with the argument vector:
  the tool (left out when it is the empty string), \<open>--update\<close>, \<open>--recursive\<close>, \<open>--owner\<close>,
  \<open>--group\<close>, then \<open>--chown=<owner>:<group>\<close> exactly when owner and group are both non-empty,
  then \<open>--chmod=D<dmode>,F<fmode>\<close>, the extra options in order, the normalized source path
  and the home-expanded (on Windows rewritten) destination path.
\<close>

theorem sync_argument_vector:
  "take 1 (emitted st (snd (sync ops source destination dmode fmode owner grp rsync options
                              stdout stderr st))) =
     [Call_run
        ((if rsync = [] then [] else [rsync]) @
         [''--update'', ''--recursive'', ''--owner'', ''--group''] @
         (if truthy owner \<and> truthy grp
          then [''--chown='' @ fmt owner @ '':'' @ fmt grp] else []) @
         [''--chmod=D'' @ str_int dmode @ '',F'' @ str_int fmode] @
         options @
         [sync_source_abs ops (world st) source, sync_dest_abs ops destination])
        stdout stderr (base_directory ops)]"
proof -
  obtain ok st1 where s: "sync ops source destination dmode fmode owner grp rsync options
                              stdout stderr st = (ok, st1)"
    by (cases "sync ops source destination dmode fmode owner grp rsync options stdout stderr st")
  from sync_emitted[OF s] obtain ev where
    "trace st1 = trace st @ [Call_run (sync_full_cmd ops (world st) source destination dmode fmode owner grp rsync options)
        stdout stderr (base_directory ops), ev]" by blast
  then have "emitted st st1 = [Call_run (sync_full_cmd ops (world st) source destination dmode fmode owner grp rsync options)
        stdout stderr (base_directory ops), ev]" by (rule emitted_append)
  then show ?thesis using s by (simp add: sync_full_cmd_def sync_cmd_def)
qed

text \<open>
  The claim as written has the tool first in every case; with the tool \<open>''\<close> the filter that
  removes the empty chown placeholder removes the tool as well.
\<close>

theorem sync_empty_tool_counterexample:
  "take 1 (emitted demo_state (snd (sync demo_os ''a'' ''/d'' 755 644 None None [] []
                                      Inherit Inherit demo_state))) \<noteq>
     [Call_run [[], ''--update'', ''--recursive'', ''--owner'', ''--group'',
                ''--chmod=D755,F644'', ''/base/a'', ''/d''] Inherit Inherit ''/base'']"
  by code_simp

subsection \<open>C6: success is exit status zero\<close>


subsection \<open>C7: a directory source ends with a slash\<close>



lemma chmodown_emitted:
  "emitted st (chmodown ops p m u g st) =
     Call_chmod p m #
     (case fst (chmod ops p m (world st)) of None \<Rightarrow> []
      | Some e \<Rightarrow> [Log Warning (Failed_to_chmod p m e)]) @
     (if \<not> IS_WINDOWS ops then
        Call_chown p u g #
        (case fst (chown ops p u g (snd (chmod ops p m (world st)))) of None \<Rightarrow> []
         | Some e \<Rightarrow> [Log Warning (Failed_to_chown p u g e)])
      else [])"
  by (rule emitted_append)
     (auto simp: chmodown_def Let_def split: prod.splits option.splits)

lemma create_result:
  "fst (create ops p m u g st) =
     (path_exists ops (world st) (abspath ops (path_join ops p ''..'')) \<or>
      fst (mkdir ops (abspath ops (path_join ops p ''..'')) m (world st)) = None)"
  by (auto simp: create_def Let_def split: prod.splits option.splits)

lemma create_calls_chmodown:
  assumes "\<not> path_exists ops (world st) (abspath ops (path_join ops p ''..''))"
      and "mkdir ops (abspath ops (path_join ops p ''..'')) m (world st) = (None, w1)"
  shows "emitted st (snd (create ops p m u g st)) =
           Call_mkdir (abspath ops (path_join ops p ''..'')) m #
           emitted (emit [Call_mkdir (abspath ops (path_join ops p ''..'')) m] (st\<lparr>world := w1\<rparr>))
             (chmodown ops (abspath ops (path_join ops p ''..'')) m u g
                (emit [Call_mkdir (abspath ops (path_join ops p ''..'')) m] (st\<lparr>world := w1\<rparr>))) @
           [Log Lowinfo (Creating_directory (abspath ops (path_join ops p ''..'')))]"
proof -
  define parent where "parent = abspath ops (path_join ops p ''..'')"
  define st2 where "st2 = emit [Call_mkdir parent m] (st\<lparr>world := w1\<rparr>)"
  obtain evs where ch: "trace (chmodown ops parent m u g st2) = trace st2 @ evs"
    using chmodown_trace[of ops parent m u g st2] by blast
  then have e: "emitted st2 (chmodown ops parent m u g st2) = evs" by (rule emitted_append)
  have "trace (snd (create ops p m u g st)) =
          trace st @ (Call_mkdir parent m # evs @ [Log Lowinfo (Creating_directory parent)])"
    using assms ch by (simp add: create_def Let_def parent_def[symmetric] st2_def[symmetric])
       (simp add: st2_def)
  then have "emitted st (snd (create ops p m u g st)) =
          Call_mkdir parent m # evs @ [Log Lowinfo (Creating_directory parent)]"
    by (rule emitted_append)
  then show ?thesis using e by (simp add: parent_def st2_def)
qed

subsection \<open>C8: the directory creator\<close>

text \<open>
  Claim C8. When the parent directory exists, \<open>_create\<close> returns true and does nothing. It
  returns false exactly when the parent is missing and \<open>os.mkdir\<close> raises. After a successful
  \<open>os.mkdir\<close> it calls \<open>_chmodown\<close>, which always calls \<open>os.chmod\<close> and, off Windows, always
  calls \<open>os.chown\<close> afterwards, whatever \<open>os.chmod\<close> did; each failure is logged as a warning
  of its own and changes nothing else.
\<close>

theorem create_false_only_when_mkdir_fails:
  "(path_exists ops (world st) (abspath ops (path_join ops p ''..'')) \<longrightarrow>
      create ops p m u g st = (True, st)) \<and>
   (\<not> fst (create ops p m u g st) \<longleftrightarrow>
      \<not> path_exists ops (world st) (abspath ops (path_join ops p ''..'')) \<and>
      fst (mkdir ops (abspath ops (path_join ops p ''..'')) m (world st)) \<noteq> None) \<and>
   (\<not> path_exists ops (world st) (abspath ops (path_join ops p ''..'')) \<and>
    fst (mkdir ops (abspath ops (path_join ops p ''..'')) m (world st)) = None \<longrightarrow>
      Call_chmod (abspath ops (path_join ops p ''..'')) m \<in> set (emitted st (snd (create ops p m u g st)))) \<and>
   emitted st (chmodown ops q m u g st) =
     Call_chmod q m #
     (case fst (chmod ops q m (world st)) of None \<Rightarrow> []
      | Some e \<Rightarrow> [Log Warning (Failed_to_chmod q m e)]) @
     (if \<not> IS_WINDOWS ops then
        Call_chown q u g #
        (case fst (chown ops q u g (snd (chmod ops q m (world st)))) of None \<Rightarrow> []
         | Some e \<Rightarrow> [Log Warning (Failed_to_chown q u g e)])
      else [])"
proof -
  have a: "path_exists ops (world st) (abspath ops (path_join ops p ''..'')) \<longrightarrow>
      create ops p m u g st = (True, st)"
    by (simp add: create_def Let_def)
  have b: "\<not> fst (create ops p m u g st) \<longleftrightarrow>
      \<not> path_exists ops (world st) (abspath ops (path_join ops p ''..'')) \<and>
      fst (mkdir ops (abspath ops (path_join ops p ''..'')) m (world st)) \<noteq> None"
    by (simp add: create_result)
  have c: "Call_chmod (abspath ops (path_join ops p ''..'')) m \<in> set (emitted st (snd (create ops p m u g st)))"
    if h: "\<not> path_exists ops (world st) (abspath ops (path_join ops p ''..''))"
          "fst (mkdir ops (abspath ops (path_join ops p ''..'')) m (world st)) = None"
  proof -
    obtain w1 where mk: "mkdir ops (abspath ops (path_join ops p ''..'')) m (world st) = (None, w1)"
      using h(2) by (cases "mkdir ops (abspath ops (path_join ops p ''..'')) m (world st)") auto
    show ?thesis
      by (simp add: create_calls_chmodown[OF h(1) mk] chmodown_emitted)
  qed
  have c': "\<not> path_exists ops (world st) (abspath ops (path_join ops p ''..'')) \<and>
    fst (mkdir ops (abspath ops (path_join ops p ''..'')) m (world st)) = None \<longrightarrow>
      Call_chmod (abspath ops (path_join ops p ''..'')) m \<in> set (emitted st (snd (create ops p m u g st)))"
    using c by blast
  show ?thesis by (intro conjI a b c' chmodown_emitted)
qed

theorem create_false_only_when_mkdir_fails_witness:
  "\<not> path_exists demo_os (world demo_state) (abspath demo_os (path_join demo_os ''/home/alice/.config/app'' ''..'')) \<and>
   fst (mkdir demo_os (abspath demo_os (path_join demo_os ''/home/alice/.config/app'' ''..'')) 493
          (world demo_state)) = None \<and>
   fst (create demo_os ''/home/alice/.config/app'' 493 0 50 demo_state) \<and>
   Call_chmod (abspath demo_os (path_join demo_os ''/home/alice/.config/app'' ''..'')) 493
     \<in> set (emitted demo_state (snd (create demo_os ''/home/alice/.config/app'' 493 0 50 demo_state))) \<and>
   path_exists demo_os (world demo_state) (abspath demo_os (path_join demo_os ''/dst'' ''..'')) \<and>
   create demo_os ''/dst'' 493 0 50 demo_state = (True, demo_state)"
proof -
  have a: "\<not> path_exists demo_os (world demo_state) (abspath demo_os (path_join demo_os ''/home/alice/.config/app'' ''..''))"
    by code_simp
  have b: "fst (mkdir demo_os (abspath demo_os (path_join demo_os ''/home/alice/.config/app'' ''..'')) 493
          (world demo_state)) = None" by code_simp
  have c: "path_exists demo_os (world demo_state) (abspath demo_os (path_join demo_os ''/dst'' ''..''))"
    by code_simp
  note t1 = create_false_only_when_mkdir_fails[of demo_os demo_state "''/home/alice/.config/app''" 493 0 50 "''q''"]
  note t2 = create_false_only_when_mkdir_fails[of demo_os demo_state "''/dst''" 493 0 50 "''q''"]
  have d: "fst (create demo_os ''/home/alice/.config/app'' 493 0 50 demo_state)"
    using t1 a b by simp
  have e: "Call_chmod (abspath demo_os (path_join demo_os ''/home/alice/.config/app'' ''..'')) 493
     \<in> set (emitted demo_state (snd (create demo_os ''/home/alice/.config/app'' 493 0 50 demo_state)))"
    using t1 a b by simp
  have f: "create demo_os ''/dst'' 493 0 50 demo_state = (True, demo_state)"
    using t2 c by simp
  show ?thesis using a b c d e f by simp
qed


subsection \<open>C3: the result is the conjunction of all attempts\<close>



subsection \<open>C5: the destination\<close>

text \<open>
  Claim C5, as amended. The destination expression is expanded with \<open>globs=False\<close>: home
  directory and environment variables only. It always yields exactly one path, the tuple
  pattern of line 76 never fails, and the record is processed with that path.
\<close>

theorem destination_is_one_path:
  "expand_path ops w destination0 False = [expandvars ops (expanduser ops destination0)] \<and>
   process_record ops defaults (destination0, source) acc =
     process_destination ops defaults (expandvars ops (expanduser ops destination0)) source acc"
  by (simp add: process_record_def expand_path_def)

text \<open>
  The claim as written: a destination expression that matches two paths, and one that matches
  none, are both processed without any error.
\<close>

theorem destination_glob_counterexample:
  "length (glob demo_os (world demo_state) ''/dst/*'') = 2 \<and>
   fst (process_records demo_os no_defaults [(''/dst/*'', Bare ''/src/a.txt'')] demo_state) = Inr True \<and>
   length (glob demo_os (world demo_state) ''/nowhere'') = 0 \<and>
   fst (process_records demo_os no_defaults [(''/nowhere'', Bare ''/src/a.txt'')] demo_state) = Inr True"
  by code_simp

subsection \<open>C10: an unknown owner or group aborts the run\<close>

text \<open>
  Claim C10. Off Windows, when the effective owner (or group) of the first record is a
  non-empty name that \<open>pwd.getpwnam\<close> (or \<open>grp.getgrnam\<close>) does not know, \<open>_process_records\<close>
  raises KeyError: it returns no boolean, and nothing has been done to the outside, whatever
  records follow.
\<close>

theorem unknown_owner_aborts_run:
  assumes "\<not> IS_WINDOWS ops"
      and "effective_config ops defaults source = Inr cfg"
      and "(truthy (eff_owner cfg) \<and> getpwnam ops (fmt (eff_owner cfg)) = None) \<or>
           (truthy (eff_group cfg) \<and> getgrnam ops (fmt (eff_group cfg)) = None)"
  shows "process_records ops defaults ((destination0, source) # rest) st =
           (Inl (KeyError (if truthy (eff_owner cfg) \<and> getpwnam ops (fmt (eff_owner cfg)) = None
                           then fmt (eff_owner cfg) else fmt (eff_group cfg))), st)"
proof -
  have "resolve_ids ops (eff_owner cfg) (eff_group cfg) =
          Inl (KeyError (if truthy (eff_owner cfg) \<and> getpwnam ops (fmt (eff_owner cfg)) = None
                           then fmt (eff_owner cfg) else fmt (eff_group cfg)))"
    using assms(1,3) by (auto simp: resolve_ids_def split: option.splits)
  then have "process_record ops defaults (destination0, source) (True, st) =
          (Inl (KeyError (if truthy (eff_owner cfg) \<and> getpwnam ops (fmt (eff_owner cfg)) = None
                           then fmt (eff_owner cfg) else fmt (eff_group cfg))), st)"
    using assms(2) by (simp add: process_record_def expand_path_def process_destination_def)
  then show ?thesis by (simp add: process_records_def)
qed

theorem unknown_owner_aborts_run_witness:
  "\<not> IS_WINDOWS demo_os \<and>
   truthy (Some ''ghost'') \<and> getpwnam demo_os ''ghost'' = None \<and>
   process_records demo_os no_defaults
     [(''/dst'', Extended (no_defaults\<lparr>get_path := Some ''/src/a.txt'',
                                       get_owner := Some (Some ''ghost'')\<rparr>)),
      (''/dst'', Bare ''/src/a.txt'')] demo_state
     = (Inl (KeyError ''ghost''), demo_state)"
proof -
  define src where "src = Extended (no_defaults\<lparr>get_path := Some ''/src/a.txt'',
                                       get_owner := Some (Some ''ghost'')\<rparr>)"
  define cfg where "cfg = \<lparr> eff_create = False, eff_rsync = ''rsync'',
      eff_options = [''--delete'', ''--safe-links''], eff_fmode = 644, eff_dmode = 755,
      eff_owner = Some ''ghost'', eff_group = Some ''staff'', eff_stdout = Inherit,
      eff_stderr = Inherit, eff_paths_expression = ''/src/a.txt'' \<rparr>"
  have a: "\<not> IS_WINDOWS demo_os" by code_simp
  have b: "effective_config demo_os no_defaults src = Inr cfg" unfolding src_def cfg_def by code_simp
  have c: "truthy (Some ''ghost'')" by code_simp
  have d: "getpwnam demo_os ''ghost'' = None" by code_simp
  have e: "(truthy (eff_owner cfg) \<and> getpwnam demo_os (fmt (eff_owner cfg)) = None) \<or>
           (truthy (eff_group cfg) \<and> getgrnam demo_os (fmt (eff_group cfg)) = None)"
    using c d by (simp add: cfg_def fmt_def)
  show ?thesis
    using unknown_owner_aborts_run[OF a b e, of "''/dst''" "[(''/dst'', Bare ''/src/a.txt'')]" demo_state]
      a c d by (simp add: cfg_def fmt_def src_def)
qed

subsection \<open>C2: defaults and overrides\<close>

text \<open>
  Claim C2 at one input. With the defaults \<open>stdout: false, stderr: false\<close>, a record given as
  a bare source string runs the tool with both streams inherited, while the same record given
  as an extended specification that sets only \<open>path\<close> runs it with both streams on devnull.
\<close>

theorem bare_record_ignores_stdout_default:
  "filter is_run (trace (snd (process_records demo_os
       (no_defaults\<lparr>get_stdout := Some False, get_stderr := Some False\<rparr>)
       [(''/dst'', Bare ''/src/a.txt'')] demo_state))) =
     [Call_run [''rsync'', ''--update'', ''--recursive'', ''--owner'', ''--group'',
                ''--chown=alice:staff'', ''--chmod=D755,F644'', ''--delete'', ''--safe-links'',
                ''/src/a.txt'', ''/dst''] Inherit Inherit ''/base''] \<and>
   filter is_run (trace (snd (process_records demo_os
       (no_defaults\<lparr>get_stdout := Some False, get_stderr := Some False\<rparr>)
       [(''/dst'', Extended (no_defaults\<lparr>get_path := Some ''/src/a.txt''\<rparr>))] demo_state))) =
     [Call_run [''rsync'', ''--update'', ''--recursive'', ''--owner'', ''--group'',
                ''--chown=alice:staff'', ''--chmod=D755,F644'', ''--delete'', ''--safe-links'',
                ''/src/a.txt'', ''/dst''] DevNull DevNull ''/base'']"
  by code_simp

end
